theory Spec2Isabelle
  imports Main "HOL-Library.Sublist"
begin

section \<open>The launcher \<open>launch.py\<close> as state-passing functions\<close>

text \<open>
  The launcher is a sequence of effects: it reads the clock, prints to \<open>sys.stdout\<close>,
  looks at one path, spawns two commands and appends to one log file. The effects are
  made explicit. What the operating system and the child processes do is an environment
  \<open>env\<close>, which the functions only read; what the launcher itself has done is a
  \<open>world\<close>, which each function takes and returns updated. A Python function that can
  raise returns \<open>exn + 'a\<close> (\<open>Inl\<close> the exception) together with the world it leaves.

  Scope of the model: the operations on the log path (\<open>mkdir\<close>, \<open>open\<close>,
  \<open>write\<close>, \<open>flush\<close>) and the writes to \<open>sys.stdout\<close> succeed; the failures
  that are modelled are those of spawning a command and of the install command's
  return code. Strings are byte strings: the one non-ASCII character of the source
  (the horizontal ellipsis) is its three UTF-8 bytes.
\<close>

subsection \<open>Data\<close>

type_synonym command = "string list"

text \<open>What a path resolves to. \<open>Path.exists()\<close> is true for every entry but \<open>Absent\<close>.\<close>

datatype entry = Absent | RegularFile | Directory

text \<open>The exceptions that occur, each with the text that \<open>str(exc)\<close> gives.\<close>

datatype exn = RuntimeError string | OSError string

text \<open>
  What spawning a command yields: the spawn fails with an operating-system error, or a
  child runs, whose merged output is the list of lines that iterating over its pipe
  yields and whose return code is an integer (negative when a signal killed it).
\<close>

datatype proc = SpawnFails string | Child "string list" int

record env =
  clock :: "nat \<Rightarrow> nat"
  strftime :: "nat \<Rightarrow> string"
  isoformat :: "nat \<Rightarrow> string"
  log_file_path :: string
  log_file_resolved :: string
  spawn :: "command \<Rightarrow> proc"

text \<open>
  \<open>clock e k\<close> is the \<open>k\<close>-th reading of \<open>datetime.datetime.now()\<close>;
  \<open>strftime e t\<close> is \<open>t.strftime("%Y-%m-%d %H:%M:%S")\<close> and \<open>isoformat e t\<close> is
  \<open>t.isoformat()\<close>; \<open>log_file_path e\<close> is \<open>str(LOG_FILE)\<close> and
  \<open>log_file_resolved e\<close> is \<open>str(LOG_FILE.resolve())\<close>.
\<close>

record world =
  node_modules :: entry
  log_dir :: bool
  log_file :: "string option"
  log_buffer :: string
  console :: string
  spawned :: "command list"
  now_calls :: nat

text \<open>
  \<open>node_modules\<close> is what \<open>ROOT / "node_modules"\<close> resolves to; \<open>log_dir\<close> says
  whether the directory \<open>LOG_DIR\<close> exists; \<open>log_file\<close> is the content of \<open>LOG_FILE\<close>
  that has reached the file (\<open>None\<close> when there is no such file); \<open>log_buffer\<close> is the
  text written to the open log handle and not yet flushed; \<open>console\<close> is everything this
  process has written to \<open>sys.stdout\<close>; \<open>spawned\<close> lists the commands for which a
  child was started, in order; \<open>now_calls\<close> counts the readings of the clock.
\<close>

subsection \<open>Library operations\<close>

abbreviation nl :: string where
  "nl \<equiv> [CHR 0x0A]"

text \<open>U+2026 in UTF-8.\<close>

definition ellipsis :: string where
  "ellipsis = [CHR 0xE2, CHR 0x80, CHR 0xA6]"

fun exists_path :: "entry \<Rightarrow> bool" where
  "exists_path Absent = False"
| "exists_path RegularFile = True"
| "exists_path Directory = True"

fun exn_str :: "exn \<Rightarrow> string" where
  "exn_str (RuntimeError m) = m"
| "exn_str (OSError m) = m"

text \<open>\<open>sep.join(xs)\<close>.\<close>

fun join :: "string \<Rightarrow> string list \<Rightarrow> string" where
  "join sep [] = []"
| "join sep [x] = x"
| "join sep (x # y # ys) = x @ sep @ join sep (y # ys)"

text \<open>The decimal numeral of an integer, as an f-string renders it.\<close>

definition digit_char :: "nat \<Rightarrow> char" where
  "digit_char d = ''0123456789'' ! d"

fun str_nat :: "nat \<Rightarrow> string" where
  "str_nat n = (if n < 10 then [digit_char n] else str_nat (n div 10) @ [digit_char (n mod 10)])"

declare str_nat.simps [simp del]

definition str_int :: "int \<Rightarrow> string" where
  "str_int i = (if i < 0 then CHR ''-'' # str_nat (nat (- i)) else str_nat (nat i))"

definition now :: "env \<Rightarrow> world \<Rightarrow> nat \<times> world" where
  "now e w = (clock e (now_calls w), w\<lparr>now_calls := Suc (now_calls w)\<rparr>)"

text \<open>\<open>sys.stdout.write(s)\<close>; \<open>print(s)\<close> writes \<open>s\<close> and a newline.\<close>

definition stdout_write :: "string \<Rightarrow> world \<Rightarrow> world" where
  "stdout_write s w = w\<lparr>console := console w @ s\<rparr>"

definition print :: "string \<Rightarrow> world \<Rightarrow> world" where
  "print s w = stdout_write (s @ nl) w"

text \<open>The content of the log file, empty when there is no file.\<close>

definition log_content :: "world \<Rightarrow> string" where
  "log_content w = (case log_file w of None \<Rightarrow> [] | Some c \<Rightarrow> c)"

text \<open>\<open>LOG_DIR.mkdir(parents=True, exist_ok=True)\<close>.\<close>

definition mkdir_log_dir :: "world \<Rightarrow> world" where
  "mkdir_log_dir w = w\<lparr>log_dir := True\<rparr>"

text \<open>
  \<open>LOG_FILE.open("a")\<close>: the file is created empty when it is missing and kept as it is
  otherwise; the new handle has nothing buffered.
\<close>

definition open_append :: "world \<Rightarrow> world" where
  "open_append w = w\<lparr>log_file := Some (log_content w), log_buffer := []\<rparr>"

definition handle_write :: "string \<Rightarrow> world \<Rightarrow> world" where
  "handle_write s w = w\<lparr>log_buffer := log_buffer w @ s\<rparr>"

text \<open>\<open>flush\<close> appends the buffered text to the file, as append mode does.\<close>

definition handle_flush :: "world \<Rightarrow> world" where
  "handle_flush w = w\<lparr>log_file := Some (log_content w @ log_buffer w), log_buffer := []\<rparr>"

text \<open>Leaving the \<open>with\<close> block closes the handle, which flushes it.\<close>

definition handle_close :: "world \<Rightarrow> world" where
  "handle_close w = handle_flush w"

text \<open>
  \<open>subprocess.run(cmd, cwd=ROOT)\<close>: the child inherits the terminal, so its output is
  not a write of this process to \<open>sys.stdout\<close>; the call returns the return code.
\<close>

definition subprocess_run :: "env \<Rightarrow> command \<Rightarrow> world \<Rightarrow> (exn + int) \<times> world" where
  "subprocess_run e cmd w =
     (case spawn e cmd of
        SpawnFails m \<Rightarrow> (Inl (OSError m), w)
      | Child out returncode \<Rightarrow> (Inr returncode, w\<lparr>spawned := spawned w @ [cmd]\<rparr>))"

subsection \<open>The functions of \<open>launch.py\<close>\<close>

definition log :: "env \<Rightarrow> string \<Rightarrow> world \<Rightarrow> world" where
  "log e message w =
     (let (t, w1) = now e w;
          timestamp = strftime e t
      in print (''['' @ timestamp @ ''] '' @ message) w1)"

definition ensure_dependencies :: "env \<Rightarrow> world \<Rightarrow> (exn + unit) \<times> world" where
  "ensure_dependencies e w =
     (if exists_path (node_modules w)
      then (Inr (), log e ''Dependencies already installed. Skipping npm install.'' w)
      else
        let w1 = log e (''Installing dependencies with npm install '' @ ellipsis) w
        in case subprocess_run e [''npm'', ''install''] w1 of
             (Inl exc, w2) \<Rightarrow> (Inl exc, w2)
           | (Inr returncode, w2) \<Rightarrow>
               if returncode \<noteq> 0
               then (Inl (RuntimeError ''npm install failed. Check the log for details.''), w2)
               else (Inr (), w2))"

text \<open>The body of the loop \<open>for line in process.stdout\<close>, and the loop.\<close>

definition stream_line :: "string \<Rightarrow> world \<Rightarrow> world" where
  "stream_line line w = handle_flush (handle_write line (stdout_write line w))"

fun stream_lines :: "string list \<Rightarrow> world \<Rightarrow> world" where
  "stream_lines [] w = w"
| "stream_lines (line # rest) w = stream_lines rest (stream_line line w)"

text \<open>
  The state in which \<open>stream_process\<close> reaches \<open>subprocess.Popen\<close>: directory made,
  file opened, the three header writes done (and still buffered).
\<close>

definition stream_begin :: "env \<Rightarrow> command \<Rightarrow> world \<Rightarrow> world" where
  "stream_begin e command w =
     (let w1 = mkdir_log_dir w;
          w2 = open_append w1;
          w3 = handle_write (nl @ replicate 80 CHR ''='' @ nl) w2;
          (t, w4) = now e w3;
          w5 = handle_write (''Launch at '' @ isoformat e t @ nl) w4
      in handle_write (''Command: '' @ join '' '' command @ nl @ nl) w5)"

definition stream_process :: "env \<Rightarrow> command \<Rightarrow> world \<Rightarrow> (exn + int) \<times> world" where
  "stream_process e command w =
     (let w6 = stream_begin e command w
      in case spawn e command of
           SpawnFails m \<Rightarrow> (Inl (OSError m), handle_close w6)
         | Child out returncode \<Rightarrow>
             let w7 = stream_lines out (w6\<lparr>spawned := spawned w6 @ [command]\<rparr>);
                 w8 = handle_write (nl @ ''Process exited with code '' @ str_int returncode @ nl) w7
             in (Inr returncode, handle_close w8))"

definition dev_command :: command where
  "dev_command = [''npm'', ''run'', ''dev'', ''--'', ''--host'', ''0.0.0.0'']"

definition main :: "env \<Rightarrow> world \<Rightarrow> (exn + int) \<times> world" where
  "main e w =
     (let w1 = log e (''Starting SleekFinance launcher'' @ ellipsis) w
      in case ensure_dependencies e w1 of
           (Inl exc, w2) \<Rightarrow>
             (Inr 1, log e (''Dependency installation failed: '' @ exn_str exc) w2)
         | (Inr u, w2) \<Rightarrow>
             (case stream_process e dev_command w2 of
                (Inl exc, w3) \<Rightarrow> (Inl exc, w3)
              | (Inr exit_code, w3) \<Rightarrow>
                  (Inr exit_code,
                   if exit_code = 0
                   then log e (''Development server exited cleanly. Full log written to ''
                                 @ log_file_path e @ ''.'') w3
                   else log e (''Development server exited with errors. Review the log file at ''
                                 @ log_file_resolved e @ '' for diagnostics.'') w3)))"

subsection \<open>The framing of a log section\<close>

text \<open>
  The text that frames one invocation in the log, written out once so that the
  theorems can name it: the header is a blank line, a line of 80 equals signs, the line
  \<open>Launch at\<close> with the clock reading in ISO format, the line \<open>Command:\<close> with the
  words of the command joined by spaces, and a blank line; the footer is a blank line
  and the line \<open>Process exited with code\<close> with the return code.
\<close>

definition section_header :: "env \<Rightarrow> nat \<Rightarrow> command \<Rightarrow> string" where
  "section_header e t command =
     nl @ replicate 80 CHR ''='' @ nl @ ''Launch at '' @ isoformat e t @ nl
       @ ''Command: '' @ join '' '' command @ nl @ nl"

definition section_footer :: "int \<Rightarrow> string" where
  "section_footer returncode = nl @ ''Process exited with code '' @ str_int returncode @ nl"

text \<open>The line that \<open>log\<close> prints at the \<open>k\<close>-th reading of the clock.\<close>

definition log_line :: "env \<Rightarrow> nat \<Rightarrow> string \<Rightarrow> string" where
  "log_line e k message = ''['' @ strftime e (clock e k) @ ''] '' @ message @ nl"

definition start_message :: string where
  "start_message = ''Starting SleekFinance launcher'' @ ellipsis"

subsection \<open>Concrete runs\<close>

text \<open>
  An environment in which the clock counts its readings, \<open>npm install\<close> and the
  development server behave as given, and \<open>echo hello\<close> prints one line; and a world
  in which nothing has happened yet, with the given marker entry and log content.
\<close>

definition test_env :: "proc \<Rightarrow> proc \<Rightarrow> env" where
  "test_env install dev =
     \<lparr>clock = (\<lambda>k. k),
      strftime = (\<lambda>t. ''2024-05-01 09:00:0'' @ str_nat t),
      isoformat = (\<lambda>t. ''2024-05-01T09:00:0'' @ str_nat t @ ''.000250''),
      log_file_path = ''logs/sleekfinance-dev.log'',
      log_file_resolved = ''/srv/app/logs/sleekfinance-dev.log'',
      spawn = (\<lambda>cmd. if cmd = [''npm'', ''install''] then install
                     else if cmd = dev_command then dev
                     else if cmd = [''echo'', ''hello''] then Child [''hello'' @ nl] 0
                     else SpawnFails ''[Errno 2] No such file or directory'')\<rparr>"

definition test_world :: "entry \<Rightarrow> string option \<Rightarrow> world" where
  "test_world nm content =
     \<lparr>node_modules = nm, log_dir = (content \<noteq> None), log_file = content, log_buffer = [],
      console = [], spawned = [], now_calls = 0\<rparr>"

section \<open>What each function does to the world\<close>

lemma log_eq:
  "log e message w =
     w\<lparr>console := console w @ log_line e (now_calls w) message, now_calls := Suc (now_calls w)\<rparr>"
  by (simp add: log_def now_def print_def stdout_write_def log_line_def)

lemma stream_line_eq:
  "stream_line line w =
     w\<lparr>log_file := Some (log_content w @ log_buffer w @ line), log_buffer := [],
       console := console w @ line\<rparr>"
  by (simp add: stream_line_def handle_flush_def handle_write_def stdout_write_def log_content_def)

lemma stream_lines_Cons_eq:
  "stream_lines (line # rest) w =
     w\<lparr>log_file := Some (log_content w @ log_buffer w @ concat (line # rest)), log_buffer := [],
       console := console w @ concat (line # rest)\<rparr>"
proof (induction rest arbitrary: line w)
  case Nil
  show ?case by (simp add: stream_line_eq)
next
  case (Cons a rest)
  have "stream_lines (line # a # rest) w = stream_lines (a # rest) (stream_line line w)"
    by simp
  also have "\<dots> = w\<lparr>log_file := Some (log_content w @ log_buffer w @ concat (line # a # rest)),
       log_buffer := [], console := console w @ concat (line # a # rest)\<rparr>"
    by (simp only: Cons.IH) (simp add: stream_line_eq log_content_def)
  finally show ?case .
qed

lemma stream_begin_eq:
  "stream_begin e command w =
     w\<lparr>log_dir := True, log_file := Some (log_content w),
       log_buffer := section_header e (clock e (now_calls w)) command,
       now_calls := Suc (now_calls w)\<rparr>"
  by (simp add: stream_begin_def mkdir_log_dir_def open_append_def handle_write_def now_def
      log_content_def section_header_def)

lemma stream_process_Child:
  assumes "spawn e command = Child out returncode"
  shows "stream_process e command w =
     (Inr returncode,
      w\<lparr>log_dir := True,
        log_file := Some (log_content w @ section_header e (clock e (now_calls w)) command
                            @ concat out @ section_footer returncode),
        log_buffer := [],
        console := console w @ concat out,
        spawned := spawned w @ [command],
        now_calls := Suc (now_calls w)\<rparr>)"
proof (cases out)
  case Nil
  then show ?thesis using assms
    by (simp add: stream_process_def stream_begin_eq handle_close_def handle_flush_def
        handle_write_def log_content_def section_footer_def)
next
  case (Cons line rest)
  then show ?thesis using assms
    by (simp add: stream_process_def stream_begin_eq stream_lines_Cons_eq handle_close_def
        handle_flush_def handle_write_def log_content_def section_footer_def Let_def
        del: stream_lines.simps)
qed

lemma stream_process_SpawnFails:
  assumes "spawn e command = SpawnFails m"
  shows "stream_process e command w =
     (Inl (OSError m),
      w\<lparr>log_dir := True,
        log_file := Some (log_content w @ section_header e (clock e (now_calls w)) command),
        log_buffer := [],
        now_calls := Suc (now_calls w)\<rparr>)"
  using assms
  by (simp add: stream_process_def stream_begin_eq handle_close_def handle_flush_def
      log_content_def)

lemma ensure_dependencies_present:
  assumes "exists_path (node_modules w)"
  shows "ensure_dependencies e w =
           (Inr (), log e ''Dependencies already installed. Skipping npm install.'' w)"
  using assms by (simp add: ensure_dependencies_def)

lemma ensure_dependencies_install:
  assumes "node_modules w = Absent" and "spawn e [''npm'', ''install''] = Child out returncode"
  shows "ensure_dependencies e w =
           (if returncode \<noteq> 0
            then Inl (RuntimeError ''npm install failed. Check the log for details.'')
            else Inr (),
            (log e (''Installing dependencies with npm install '' @ ellipsis) w)
              \<lparr>spawned := spawned w @ [[''npm'', ''install'']]\<rparr>)"
  using assms by (simp add: ensure_dependencies_def subprocess_run_def log_eq Let_def)

lemma ensure_dependencies_no_spawn:
  assumes "node_modules w = Absent" and "spawn e [''npm'', ''install''] = SpawnFails m"
  shows "ensure_dependencies e w =
           (Inl (OSError m), log e (''Installing dependencies with npm install '' @ ellipsis) w)"
  using assms by (simp add: ensure_dependencies_def subprocess_run_def Let_def)

lemma ensure_dependencies_frame:
  "node_modules (snd (ensure_dependencies e w)) = node_modules w \<and>
   log_dir (snd (ensure_dependencies e w)) = log_dir w \<and>
   log_file (snd (ensure_dependencies e w)) = log_file w \<and>
   log_buffer (snd (ensure_dependencies e w)) = log_buffer w \<and>
   now_calls (snd (ensure_dependencies e w)) = Suc (now_calls w)"
  by (simp add: ensure_dependencies_def subprocess_run_def log_eq Let_def split: proc.splits)

lemma ensure_dependencies_result_cong:
  assumes "node_modules w' = node_modules w"
  shows "fst (ensure_dependencies e w') = fst (ensure_dependencies e w)"
  using assms by (simp add: ensure_dependencies_def subprocess_run_def log_eq Let_def split: proc.splits)

lemma main_install_fails:
  assumes "fst (ensure_dependencies e w) = Inl x"
  shows "main e w =
           (Inr 1, log e (''Dependency installation failed: '' @ exn_str x)
                     (snd (ensure_dependencies e (log e start_message w))))"
proof -
  obtain r w2 where r: "ensure_dependencies e (log e start_message w) = (r, w2)"
    by (cases "ensure_dependencies e (log e start_message w)")
  have "fst (ensure_dependencies e (log e start_message w)) = Inl x"
    using assms ensure_dependencies_result_cong [of "log e start_message w" w e]
    by (simp add: log_eq)
  with r have "r = Inl x" by simp
  with r show ?thesis
    by (simp add: main_def start_message_def Let_def)
qed

lemma main_install_ok:
  assumes "fst (ensure_dependencies e w) = Inr ()"
  shows "main e w =
           (case stream_process e dev_command (snd (ensure_dependencies e (log e start_message w))) of
              (Inl exc, w3) \<Rightarrow> (Inl exc, w3)
            | (Inr exit_code, w3) \<Rightarrow>
                (Inr exit_code,
                 if exit_code = 0
                 then log e (''Development server exited cleanly. Full log written to ''
                               @ log_file_path e @ ''.'') w3
                 else log e (''Development server exited with errors. Review the log file at ''
                               @ log_file_resolved e @ '' for diagnostics.'') w3))"
proof -
  obtain r w2 where r: "ensure_dependencies e (log e start_message w) = (r, w2)"
    by (cases "ensure_dependencies e (log e start_message w)")
  have "fst (ensure_dependencies e (log e start_message w)) = Inr ()"
    using assms ensure_dependencies_result_cong [of "log e start_message w" w e]
    by (simp add: log_eq)
  with r have "r = Inr ()" by simp
  with r show ?thesis
    by (simp add: main_def start_message_def Let_def)
qed

lemma before_server_frame:
  "log_file (snd (ensure_dependencies e (log e start_message w))) = log_file w \<and>
   log_dir (snd (ensure_dependencies e (log e start_message w))) = log_dir w \<and>
   log_buffer (snd (ensure_dependencies e (log e start_message w))) = log_buffer w \<and>
   now_calls (snd (ensure_dependencies e (log e start_message w))) = now_calls w + 2"
  using ensure_dependencies_frame [of e "log e start_message w"] by (simp add: log_eq)

lemmas fixture_defs = test_env_def test_world_def dev_command_def

lemmas run_defs = ensure_dependencies_def subprocess_run_def log_eq log_line_def Let_def

lemmas text_defs = section_header_def section_footer_def log_line_def start_message_def
  ellipsis_def str_int_def str_nat.simps digit_char_def

lemma stream_lines_append:
  "stream_lines (xs @ ys) w = stream_lines ys (stream_lines xs w)"
  by (induction xs arbitrary: w) simp_all

lemma ensure_dependencies_raises:
  assumes "fst (ensure_dependencies e w) = Inl x"
  shows "node_modules w = Absent \<and>
         console (snd (ensure_dependencies e w)) =
           console w @ log_line e (now_calls w) (''Installing dependencies with npm install '' @ ellipsis) \<and>
         (spawned (snd (ensure_dependencies e w)) = spawned w \<or>
          spawned (snd (ensure_dependencies e w)) = spawned w @ [[''npm'', ''install'']])"
proof (cases "node_modules w")
  case Absent
  then show ?thesis
    by (simp add: ensure_dependencies_def subprocess_run_def log_eq Let_def split: proc.splits)
next
  case RegularFile
  then show ?thesis using assms by (simp add: ensure_dependencies_present)
next
  case Directory
  then show ?thesis using assms by (simp add: ensure_dependencies_present)
qed

lemma main_install_fails_frame:
  assumes "fst (ensure_dependencies e w) = Inl x"
  shows "fst (main e w) = Inr 1"
    and "log_file (snd (main e w)) = log_file w"
    and "log_dir (snd (main e w)) = log_dir w"
    and "log_buffer (snd (main e w)) = log_buffer w"
  using before_server_frame [of e w]
  by (simp_all add: main_install_fails [OF assms] log_eq)

lemma main_appends_section:
  assumes "fst (ensure_dependencies e w) = Inr ()" and "spawn e dev_command = Child out returncode"
  shows "log_file (snd (main e w)) =
           Some (log_content w @ section_header e (clock e (now_calls w + 2)) dev_command
                   @ concat out @ section_footer returncode)"
proof -
  let ?w2 = "snd (ensure_dependencies e (log e start_message w))"
  have "log_content ?w2 = log_content w" and "now_calls ?w2 = now_calls w + 2"
    using before_server_frame [of e w] by (simp_all add: log_content_def)
  then show ?thesis
    using assms by (simp add: main_install_ok stream_process_Child log_eq)
qed

lemma main_keeps_prior_content:
  "prefix (log_content w) (log_content (snd (main e w)))"
proof (cases "fst (ensure_dependencies e w)")
  case (Inl x)
  have "log_file (snd (ensure_dependencies e (log e start_message w))) = log_file w"
    using before_server_frame [of e w] by simp
  then have "log_content (snd (main e w)) = log_content w"
    by (simp add: main_install_fails [OF Inl] log_eq log_content_def)
  then show ?thesis by simp
next
  case (Inr u)
  then have ok: "fst (ensure_dependencies e w) = Inr ()" by simp
  let ?w2 = "snd (ensure_dependencies e (log e start_message w))"
  have same: "log_content ?w2 = log_content w"
    using before_server_frame [of e w] by (simp add: log_content_def)
  show ?thesis
  proof (cases "spawn e dev_command")
    case (SpawnFails m)
    then have "log_content (snd (main e w)) =
                 log_content w @ section_header e (clock e (now_calls ?w2)) dev_command"
      using same by (simp add: main_install_ok [OF ok] stream_process_SpawnFails log_content_def)
    then show ?thesis by (rule prefixI)
  next
    case (Child out returncode)
    have "log_content (snd (main e w)) =
            log_content w @ section_header e (clock e (now_calls w + 2)) dev_command
              @ concat out @ section_footer returncode"
      using main_appends_section [OF ok Child] by (simp add: log_content_def)
    then show ?thesis by (rule prefixI)
  qed
qed

lemma main_completes:
  assumes "fst (ensure_dependencies e w) = Inr ()" and "spawn e dev_command = Child out returncode"
  shows "node_modules (snd (main e w)) = node_modules w \<and>
         now_calls (snd (main e w)) = now_calls w + 4"
proof -
  let ?w2 = "snd (ensure_dependencies e (log e start_message w))"
  have "node_modules ?w2 = node_modules w" and "now_calls ?w2 = now_calls w + 2"
    using ensure_dependencies_frame [of e "log e start_message w"] by (simp_all add: log_eq)
  then show ?thesis
    using assms by (simp add: main_install_ok stream_process_Child log_eq)
qed

section \<open>The claims\<close>

text \<open>
  C1. When the command is spawned and its merged output is the lines \<open>out\<close>,
  \<open>stream_process\<close> writes exactly these lines, unchanged and in order, to the console,
  and the log file then holds its earlier content, the header of this invocation, the
  same lines in the same order, and the footer; nothing is left in the buffer.
\<close>

theorem stream_process_tees_output:
  assumes "spawn e command = Child out returncode"
  shows "console (snd (stream_process e command w)) = console w @ concat out \<and>
         log_file (snd (stream_process e command w)) =
           Some (log_content w @ section_header e (clock e (now_calls w)) command
                   @ concat out @ section_footer returncode) \<and>
         log_buffer (snd (stream_process e command w)) = []"
  using assms by (simp add: stream_process_Child)

theorem stream_process_tees_output_witness:
  "spawn (test_env (Child [] 0) (Child [''compiled'' @ nl, ''ready'' @ nl] 0)) dev_command
     = Child [''compiled'' @ nl, ''ready'' @ nl] 0 \<and>
   console (snd (stream_process (test_env (Child [] 0) (Child [''compiled'' @ nl, ''ready'' @ nl] 0))
              dev_command (test_world Directory (Some ''earlier'')))) = ''compiled'' @ nl @ ''ready'' @ nl \<and>
   log_file (snd (stream_process (test_env (Child [] 0) (Child [''compiled'' @ nl, ''ready'' @ nl] 0))
              dev_command (test_world Directory (Some ''earlier'')))) =
     Some (''earlier'' @ nl @ replicate 80 CHR ''='' @ nl @ ''Launch at 2024-05-01T09:00:00.000250'' @ nl
            @ ''Command: npm run dev -- --host 0.0.0.0'' @ nl @ nl
            @ ''compiled'' @ nl @ ''ready'' @ nl
            @ nl @ ''Process exited with code 0'' @ nl)"
  using stream_process_tees_output [of "test_env (Child [] 0) (Child [''compiled'' @ nl, ''ready'' @ nl] 0)"
      dev_command "[''compiled'' @ nl, ''ready'' @ nl]" 0 "test_world Directory (Some ''earlier'')"]
  by (simp add: fixture_defs log_content_def section_header_def section_footer_def str_int_def
      str_nat.simps digit_char_def)

text \<open>
  C2. When the dependency step succeeds or is skipped and the development server is
  spawned, \<open>main\<close> returns the server's return code; when the dependency step raises,
  \<open>main\<close> returns 1.
\<close>

theorem main_exit_code:
  "(fst (ensure_dependencies e w) = Inr () \<longrightarrow> spawn e dev_command = Child out returncode
      \<longrightarrow> fst (main e w) = Inr returncode) \<and>
   (fst (ensure_dependencies e w) = Inl x \<longrightarrow> fst (main e w) = Inr 1)"
proof (intro conjI impI)
  assume "fst (ensure_dependencies e w) = Inr ()" and "spawn e dev_command = Child out returncode"
  then show "fst (main e w) = Inr returncode"
    by (simp add: main_install_ok stream_process_Child)
next
  assume "fst (ensure_dependencies e w) = Inl x"
  then show "fst (main e w) = Inr 1"
    by (simp add: main_install_fails)
qed

theorem main_exit_code_witness:
  "fst (ensure_dependencies (test_env (Child [] 0) (Child [''ready'' @ nl] 3)) (test_world Absent None))
     = Inr () \<and>
   spawn (test_env (Child [] 0) (Child [''ready'' @ nl] 3)) dev_command = Child [''ready'' @ nl] 3 \<and>
   fst (main (test_env (Child [] 0) (Child [''ready'' @ nl] 3)) (test_world Absent None)) = Inr 3 \<and>
   fst (ensure_dependencies (test_env (Child [] 2) (Child [''ready'' @ nl] 3)) (test_world Absent None))
     = Inl (RuntimeError ''npm install failed. Check the log for details.'') \<and>
   fst (main (test_env (Child [] 2) (Child [''ready'' @ nl] 3)) (test_world Absent None)) = Inr 1"
  using main_exit_code [of "test_env (Child [] 0) (Child [''ready'' @ nl] 3)" "test_world Absent None"
      "[''ready'' @ nl]" 3]
    main_exit_code [of "test_env (Child [] 2) (Child [''ready'' @ nl] 3)" "test_world Absent None"
      _ _ "RuntimeError ''npm install failed. Check the log for details.''"]
  by (simp add: fixture_defs run_defs)

text \<open>
  C3. When the marker is absent and \<open>npm install\<close> exits with a non-zero code, the
  \<open>RuntimeError\<close> is caught: \<open>main\<close> returns 1, the only command spawned in the run is
  \<open>npm install\<close> (the development server is never started), and the last line printed
  is the failure message with the text of the exception.
\<close>

theorem install_failure_stops_launch:
  assumes "node_modules w = Absent"
    and "spawn e [''npm'', ''install''] = Child out returncode"
    and "returncode \<noteq> 0"
  shows "fst (main e w) = Inr 1 \<and>
         spawned (snd (main e w)) = spawned w @ [[''npm'', ''install'']] \<and>
         console (snd (main e w)) =
           console w
             @ log_line e (now_calls w) (''Starting SleekFinance launcher'' @ ellipsis)
             @ log_line e (now_calls w + 1) (''Installing dependencies with npm install '' @ ellipsis)
             @ log_line e (now_calls w + 2)
                 ''Dependency installation failed: npm install failed. Check the log for details.''"
proof -
  have fails: "fst (ensure_dependencies e w) =
                 Inl (RuntimeError ''npm install failed. Check the log for details.'')"
    using assms by (simp add: ensure_dependencies_install)
  have "node_modules (log e start_message w) = Absent"
    using assms(1) by (simp add: log_eq)
  then have "snd (ensure_dependencies e (log e start_message w)) =
         (log e (''Installing dependencies with npm install '' @ ellipsis) (log e start_message w))
           \<lparr>spawned := spawned w @ [[''npm'', ''install'']]\<rparr>"
    using assms(2) by (simp add: ensure_dependencies_install log_eq)
  then show ?thesis
    by (simp add: main_install_fails [OF fails] log_eq start_message_def)
qed

theorem install_failure_stops_launch_witness:
  "node_modules (test_world Absent None) = Absent \<and>
   spawn (test_env (Child [] 1) (Child [''ready'' @ nl] 0)) [''npm'', ''install''] = Child [] 1 \<and>
   (1::int) \<noteq> 0 \<and>
   fst (main (test_env (Child [] 1) (Child [''ready'' @ nl] 0)) (test_world Absent None)) = Inr 1 \<and>
   spawned (snd (main (test_env (Child [] 1) (Child [''ready'' @ nl] 0)) (test_world Absent None)))
     = [[''npm'', ''install'']]"
  using install_failure_stops_launch [of "test_world Absent None"
      "test_env (Child [] 1) (Child [''ready'' @ nl] 0)" "[]" 1]
  by (simp add: fixture_defs)

text \<open>
  C4. When the marker directory exists, \<open>ensure_dependencies\<close> returns normally, spawns
  nothing and prints that the installation is skipped.
\<close>

theorem ensure_dependencies_skips_install:
  assumes "node_modules w = Directory"
  shows "fst (ensure_dependencies e w) = Inr () \<and>
         spawned (snd (ensure_dependencies e w)) = spawned w \<and>
         console (snd (ensure_dependencies e w)) =
           console w @ log_line e (now_calls w) ''Dependencies already installed. Skipping npm install.''"
  using assms by (simp add: ensure_dependencies_present log_eq)

theorem ensure_dependencies_skips_install_witness:
  "node_modules (test_world Directory None) = Directory \<and>
   fst (ensure_dependencies (test_env (Child [] 1) (Child [] 0)) (test_world Directory None)) = Inr () \<and>
   spawned (snd (ensure_dependencies (test_env (Child [] 1) (Child [] 0)) (test_world Directory None))) = []"
  using ensure_dependencies_skips_install [of "test_world Directory None" "test_env (Child [] 1) (Child [] 0)"]
  by (simp add: fixture_defs)

text \<open>
  C9. The check is for existence only: whether the path \<open>node_modules\<close> is a regular
  file or a directory, \<open>ensure_dependencies\<close> returns normally after printing the skip
  message, and no command is spawned.
\<close>

theorem marker_only_has_to_exist:
  assumes "node_modules w = RegularFile \<or> node_modules w = Directory"
  shows "ensure_dependencies e w =
           (Inr (), log e ''Dependencies already installed. Skipping npm install.'' w) \<and>
         spawned (log e ''Dependencies already installed. Skipping npm install.'' w) = spawned w"
  using assms by (auto simp add: ensure_dependencies_present log_eq)

theorem marker_only_has_to_exist_witness:
  "node_modules (test_world RegularFile None) = RegularFile \<and>
   fst (ensure_dependencies (test_env (Child [] 1) (Child [] 0)) (test_world RegularFile None)) = Inr () \<and>
   spawned (snd (ensure_dependencies (test_env (Child [] 1) (Child [] 0)) (test_world RegularFile None))) = []"
  using marker_only_has_to_exist [of "test_world RegularFile None" "test_env (Child [] 1) (Child [] 0)"]
  by (simp add: fixture_defs log_eq)

text \<open>
  C5, as stated, fails: a run whose \<open>npm install\<close> exits with code 1 returns 1 and
  leaves the log file exactly as it was, so the earlier content is not followed by a
  new section.
\<close>

theorem failed_install_appends_no_section:
  "log_file (test_world Absent (Some (''earlier run'' @ nl))) = Some (''earlier run'' @ nl) \<and>
   fst (main (test_env (Child [] 1) (Child [''ready'' @ nl] 0))
          (test_world Absent (Some (''earlier run'' @ nl)))) = Inr 1 \<and>
   log_file (snd (main (test_env (Child [] 1) (Child [''ready'' @ nl] 0))
          (test_world Absent (Some (''earlier run'' @ nl))))) = Some (''earlier run'' @ nl)"
proof -
  let ?e = "test_env (Child [] 1) (Child [''ready'' @ nl] 0)"
  let ?w = "test_world Absent (Some (''earlier run'' @ nl))"
  have before: "log_file ?w = Some (''earlier run'' @ nl)"
    by (simp add: test_world_def)
  have fails: "fst (ensure_dependencies ?e ?w) =
                 Inl (RuntimeError ''npm install failed. Check the log for details.'')"
    by (simp add: fixture_defs run_defs)
  have code: "fst (main ?e ?w) = Inr 1"
    by (rule main_install_fails_frame(1) [OF fails])
  have "log_file (snd (main ?e ?w)) = log_file ?w"
    by (rule main_install_fails_frame(2) [OF fails])
  then have after: "log_file (snd (main ?e ?w)) = Some (''earlier run'' @ nl)"
    using before by (rule trans)
  from before code after show ?thesis
    by (intro conjI)
qed

text \<open>
  C5, amended. After any run of \<open>main\<close> the earlier content of the log is a prefix of
  the log: nothing is truncated or overwritten. A run whose dependency step succeeds or
  is skipped and whose development server is spawned appends to the earlier content
  exactly one section, framed by header and footer; and when the log starts empty, two
  such runs, the second starting from the log the first one left, yield exactly two
  framed sections.
\<close>

theorem log_is_append_only:
  "prefix (log_content w) (log_content (snd (main e w))) \<and>
   (fst (ensure_dependencies e w) = Inr () \<longrightarrow> spawn e dev_command = Child out returncode \<longrightarrow>
      log_file (snd (main e w)) =
        Some (log_content w @ section_header e (clock e (now_calls w + 2)) dev_command
                @ concat out @ section_footer returncode)) \<and>
   (log_file w = None \<longrightarrow>
    fst (ensure_dependencies e w) = Inr () \<longrightarrow> spawn e dev_command = Child out returncode \<longrightarrow>
    log_file w' = log_file (snd (main e w)) \<longrightarrow>
    fst (ensure_dependencies e' w') = Inr () \<longrightarrow> spawn e' dev_command = Child out' returncode' \<longrightarrow>
      log_file (snd (main e' w')) =
        Some (section_header e (clock e (now_calls w + 2)) dev_command
                @ concat out @ section_footer returncode
                @ section_header e' (clock e' (now_calls w' + 2)) dev_command
                @ concat out' @ section_footer returncode'))"
proof (intro conjI impI)
  show "prefix (log_content w) (log_content (snd (main e w)))"
    by (rule main_keeps_prior_content)
next
  assume "fst (ensure_dependencies e w) = Inr ()" and "spawn e dev_command = Child out returncode"
  then show "log_file (snd (main e w)) =
        Some (log_content w @ section_header e (clock e (now_calls w + 2)) dev_command
                @ concat out @ section_footer returncode)"
    by (rule main_appends_section)
next
  assume empty: "log_file w = None"
    and first: "fst (ensure_dependencies e w) = Inr ()" "spawn e dev_command = Child out returncode"
    and between: "log_file w' = log_file (snd (main e w))"
    and second: "fst (ensure_dependencies e' w') = Inr ()" "spawn e' dev_command = Child out' returncode'"
  have "log_content w' =
          section_header e (clock e (now_calls w + 2)) dev_command @ concat out
            @ section_footer returncode"
    using main_appends_section [OF first] empty between by (simp add: log_content_def)
  then show "log_file (snd (main e' w')) =
        Some (section_header e (clock e (now_calls w + 2)) dev_command
                @ concat out @ section_footer returncode
                @ section_header e' (clock e' (now_calls w' + 2)) dev_command
                @ concat out' @ section_footer returncode')"
    using main_appends_section [OF second] by simp
qed

theorem log_is_append_only_witness:
  "log_file (test_world Directory None) = None \<and>
   fst (ensure_dependencies (test_env (Child [] 0) (Child [''ready'' @ nl] 0)) (test_world Directory None))
     = Inr () \<and>
   spawn (test_env (Child [] 0) (Child [''ready'' @ nl] 0)) dev_command = Child [''ready'' @ nl] 0 \<and>
   fst (ensure_dependencies (test_env (Child [] 0) (Child [''ready'' @ nl] 0))
          (snd (main (test_env (Child [] 0) (Child [''ready'' @ nl] 0)) (test_world Directory None))))
     = Inr () \<and>
   log_file (snd (main (test_env (Child [] 0) (Child [''ready'' @ nl] 0))
          (snd (main (test_env (Child [] 0) (Child [''ready'' @ nl] 0)) (test_world Directory None))))) =
     Some (section_header (test_env (Child [] 0) (Child [''ready'' @ nl] 0)) 2 dev_command
             @ concat [''ready'' @ nl] @ section_footer 0
             @ section_header (test_env (Child [] 0) (Child [''ready'' @ nl] 0)) 6 dev_command
             @ concat [''ready'' @ nl] @ section_footer 0)"
proof -
  let ?e = "test_env (Child [] 0) (Child [''ready'' @ nl] 0)"
  let ?w = "test_world Directory None"
  have empty: "log_file ?w = None"
    by (simp add: test_world_def)
  have sp: "spawn ?e dev_command = Child [''ready'' @ nl] 0"
    by (simp add: test_env_def dev_command_def)
  have first: "fst (ensure_dependencies ?e ?w) = Inr ()"
    by (simp add: test_world_def ensure_dependencies_def)
  have marker: "node_modules (snd (main ?e ?w)) = node_modules ?w"
    and calls: "now_calls (snd (main ?e ?w)) = now_calls ?w + 4"
    using main_completes [OF first sp] by blast+
  have second: "fst (ensure_dependencies ?e (snd (main ?e ?w))) = Inr ()"
    using marker by (simp add: test_world_def ensure_dependencies_def)
  have clk: "clock ?e k = k" for k
    by (simp add: test_env_def)
  have n0: "now_calls ?w = 0"
    by (simp add: test_world_def)
  have t1: "clock ?e (now_calls ?w + 2) = 2"
    unfolding clk n0 by simp
  have t2: "clock ?e (now_calls (snd (main ?e ?w)) + 2) = 6"
    unfolding clk calls n0 by simp
  have "log_file (snd (main ?e (snd (main ?e ?w)))) =
     Some (section_header ?e (clock ?e (now_calls ?w + 2)) dev_command
             @ concat [''ready'' @ nl] @ section_footer 0
             @ section_header ?e (clock ?e (now_calls (snd (main ?e ?w)) + 2)) dev_command
             @ concat [''ready'' @ nl] @ section_footer 0)"
    by (rule log_is_append_only [of ?w ?e "[''ready'' @ nl]" 0 "snd (main ?e ?w)" ?e "[''ready'' @ nl]" 0,
          THEN conjunct2, THEN conjunct2, rule_format, OF empty first sp refl second sp])
  then have run: "log_file (snd (main ?e (snd (main ?e ?w)))) =
     Some (section_header ?e 2 dev_command
             @ concat [''ready'' @ nl] @ section_footer 0
             @ section_header ?e 6 dev_command
             @ concat [''ready'' @ nl] @ section_footer 0)"
    by (simp only: t1 t2)
  from empty first sp second run show ?thesis
    by (intro conjI)
qed

text \<open>
  C6. The state after \<open>k\<close> iterations of the loop over the lines \<open>out\<close> is the loop run
  on the first \<open>k\<close> lines (the rest of the loop continues from there). After every
  iteration (\<open>0 < k\<close>) nothing is buffered, the console has received the first \<open>k\<close>
  lines, and the file holds what it held at loop entry, what was buffered at loop entry
  (the header), and the same \<open>k\<close> lines in the same order.
\<close>

theorem log_flushed_after_every_iteration:
  assumes "0 < k" and "k \<le> length out"
  shows "stream_lines out w = stream_lines (drop k out) (stream_lines (take k out) w) \<and>
         log_buffer (stream_lines (take k out) w) = [] \<and>
         console (stream_lines (take k out) w) = console w @ concat (take k out) \<and>
         log_file (stream_lines (take k out) w) =
           Some (log_content w @ log_buffer w @ concat (take k out))"
proof -
  obtain line rest where t: "take k out = line # rest"
    using assms by (cases "take k out") auto
  have "stream_lines out w = stream_lines (take k out @ drop k out) w"
    by simp
  also have "\<dots> = stream_lines (drop k out) (stream_lines (take k out) w)"
    by (rule stream_lines_append)
  finally have split: "stream_lines out w = stream_lines (drop k out) (stream_lines (take k out) w)" .
  show ?thesis
    using split by (simp add: t stream_lines_Cons_eq del: stream_lines.simps)
qed

theorem log_flushed_after_every_iteration_witness:
  "(0::nat) < 1 \<and> 1 \<le> length [''compiled'' @ nl, ''ready'' @ nl] \<and>
   log_buffer (stream_lines (take 1 [''compiled'' @ nl, ''ready'' @ nl])
     (stream_begin (test_env (Child [] 0) (Child [] 0)) [''echo'', ''hello''] (test_world Directory (Some ''earlier'')))) = [] \<and>
   console (stream_lines (take 1 [''compiled'' @ nl, ''ready'' @ nl])
     (stream_begin (test_env (Child [] 0) (Child [] 0)) [''echo'', ''hello''] (test_world Directory (Some ''earlier''))))
     = ''compiled'' @ nl \<and>
   log_file (stream_lines (take 1 [''compiled'' @ nl, ''ready'' @ nl])
     (stream_begin (test_env (Child [] 0) (Child [] 0)) [''echo'', ''hello''] (test_world Directory (Some ''earlier''))))
     = Some (''earlier'' @ nl @ replicate 80 CHR ''='' @ nl @ ''Launch at 2024-05-01T09:00:00.000250'' @ nl
              @ ''Command: echo hello'' @ nl @ nl @ ''compiled'' @ nl)"
  using log_flushed_after_every_iteration [of 1 "[''compiled'' @ nl, ''ready'' @ nl]"
      "stream_begin (test_env (Child [] 0) (Child [] 0)) [''echo'', ''hello''] (test_world Directory (Some ''earlier''))"]
  by (simp add: stream_begin_eq fixture_defs text_defs log_content_def)

text \<open>
  C7. After \<open>stream_process\<close>, whether or not the command could be spawned, the log
  directory exists and the log holds its earlier content followed by the header of this
  invocation (separator line, ISO timestamp, command line). When the child was spawned
  and exited with \<open>returncode\<close>, that code is returned and the log ends with the footer
  recording it; for code 0 the last line is \<open>Process exited with code 0\<close>.
\<close>

theorem stream_process_frames_log:
  "log_dir (snd (stream_process e command w)) \<and>
   prefix (log_content w @ section_header e (clock e (now_calls w)) command)
          (log_content (snd (stream_process e command w))) \<and>
   (spawn e command = Child out returncode \<longrightarrow>
      fst (stream_process e command w) = Inr returncode \<and>
      suffix (section_footer returncode) (log_content (snd (stream_process e command w)))) \<and>
   (spawn e command = Child out 0 \<longrightarrow>
      suffix (''Process exited with code 0'' @ nl) (log_content (snd (stream_process e command w))))"
proof (cases "spawn e command")
  case (SpawnFails m)
  then show ?thesis
    by (simp add: stream_process_SpawnFails log_content_def)
next
  case (Child out' returncode')
  let ?before = "log_content w @ section_header e (clock e (now_calls w)) command"
  let ?after = "log_content (snd (stream_process e command w))"
  have content: "?after = ?before @ concat out' @ section_footer returncode'"
    using Child by (simp add: stream_process_Child log_content_def)
  have dir: "log_dir (snd (stream_process e command w))"
    using Child by (simp add: stream_process_Child)
  have code: "fst (stream_process e command w) = Inr returncode'"
    using Child by (simp add: stream_process_Child)
  have pre: "prefix ?before ?after"
    using content by (rule prefixI)
  have "?after = (?before @ concat out') @ section_footer returncode'"
    using content by simp
  then have suf: "suffix (section_footer returncode') ?after"
    by (rule suffixI)
  have zero: "suffix (''Process exited with code 0'' @ nl) ?after" if "returncode' = 0"
  proof -
    have "section_footer returncode' = nl @ (''Process exited with code 0'' @ nl)"
      using that by (simp add: text_defs)
    then have "?after = (?before @ concat out' @ nl) @ (''Process exited with code 0'' @ nl)"
      using content by simp
    then show ?thesis
      by (rule suffixI)
  qed
  show ?thesis
    using Child dir code pre suf zero by auto
qed

theorem stream_process_frames_log_witness:
  "spawn (test_env (Child [] 0) (Child [] 0)) [''echo'', ''hello''] = Child [''hello'' @ nl] 0 \<and>
   fst (stream_process (test_env (Child [] 0) (Child [] 0)) [''echo'', ''hello''] (test_world Directory None)) = Inr 0 \<and>
   log_dir (snd (stream_process (test_env (Child [] 0) (Child [] 0)) [''echo'', ''hello''] (test_world Directory None))) \<and>
   suffix (''Process exited with code 0'' @ nl)
     (log_content (snd (stream_process (test_env (Child [] 0) (Child [] 0)) [''echo'', ''hello''] (test_world Directory None))))"
proof -
  have spawned: "spawn (test_env (Child [] 0) (Child [] 0)) [''echo'', ''hello''] = Child [''hello'' @ nl] 0"
    by (simp add: fixture_defs)
  show ?thesis
    using spawned stream_process_frames_log [of "test_env (Child [] 0) (Child [] 0)" "[''echo'', ''hello'']"
      "test_world Directory None" "[''hello'' @ nl]" 0]
    by blast
qed

text \<open>
  C8. When the command cannot be spawned, \<open>stream_process\<close> raises the spawn error to
  its caller; and \<open>main\<close>, once the dependency step has passed, raises the same error
  when the development server cannot be spawned: it does not catch it.
\<close>

theorem spawn_failure_propagates:
  "(spawn e command = SpawnFails m \<longrightarrow> fst (stream_process e command w) = Inl (OSError m)) \<and>
   (fst (ensure_dependencies e w) = Inr () \<longrightarrow> spawn e dev_command = SpawnFails m \<longrightarrow>
      fst (main e w) = Inl (OSError m))"
  by (simp add: stream_process_SpawnFails main_install_ok)

theorem spawn_failure_propagates_witness:
  "spawn (test_env (Child [] 0) (SpawnFails ''[Errno 2] No such file or directory'')) dev_command
     = SpawnFails ''[Errno 2] No such file or directory'' \<and>
   fst (ensure_dependencies (test_env (Child [] 0) (SpawnFails ''[Errno 2] No such file or directory''))
          (test_world Directory None)) = Inr () \<and>
   fst (stream_process (test_env (Child [] 0) (SpawnFails ''[Errno 2] No such file or directory''))
          dev_command (test_world Directory None)) = Inl (OSError ''[Errno 2] No such file or directory'') \<and>
   fst (main (test_env (Child [] 0) (SpawnFails ''[Errno 2] No such file or directory''))
          (test_world Directory None)) = Inl (OSError ''[Errno 2] No such file or directory'')"
  using spawn_failure_propagates [of "test_env (Child [] 0) (SpawnFails ''[Errno 2] No such file or directory'')"
      dev_command "''[Errno 2] No such file or directory''" "test_world Directory None"]
  by (simp add: fixture_defs ensure_dependencies_def)

text \<open>
  C10. When the dependency step raises, \<open>main\<close> returns 1 and leaves the log file, the
  log directory and the log buffer as they were; at most \<open>npm install\<close> was spawned; and
  the console has received the start line, the install line and the failure line with
  the text of the exception.
\<close>

theorem install_failure_leaves_log_untouched:
  assumes "fst (ensure_dependencies e w) = Inl x"
  shows "fst (main e w) = Inr 1 \<and>
         log_file (snd (main e w)) = log_file w \<and>
         log_dir (snd (main e w)) = log_dir w \<and>
         log_buffer (snd (main e w)) = log_buffer w \<and>
         (spawned (snd (main e w)) = spawned w \<or>
          spawned (snd (main e w)) = spawned w @ [[''npm'', ''install'']]) \<and>
         console (snd (main e w)) =
           console w
             @ log_line e (now_calls w) (''Starting SleekFinance launcher'' @ ellipsis)
             @ log_line e (now_calls w + 1) (''Installing dependencies with npm install '' @ ellipsis)
             @ log_line e (now_calls w + 2) (''Dependency installation failed: '' @ exn_str x)"
proof -
  have "fst (ensure_dependencies e (log e start_message w)) = Inl x"
    using assms ensure_dependencies_result_cong [of "log e start_message w" w e]
    by (simp add: log_eq)
  from ensure_dependencies_raises [OF this] before_server_frame [of e w]
  show ?thesis
    by (simp add: main_install_fails [OF assms] log_eq start_message_def)
qed

theorem install_failure_leaves_log_untouched_witness:
  "fst (ensure_dependencies (test_env (SpawnFails ''[Errno 2] No such file or directory'') (Child [] 0))
          (test_world Absent (Some ''earlier''))) = Inl (OSError ''[Errno 2] No such file or directory'') \<and>
   fst (main (test_env (SpawnFails ''[Errno 2] No such file or directory'') (Child [] 0))
          (test_world Absent (Some ''earlier''))) = Inr 1 \<and>
   log_file (snd (main (test_env (SpawnFails ''[Errno 2] No such file or directory'') (Child [] 0))
          (test_world Absent (Some ''earlier'')))) = Some ''earlier''"
  using install_failure_leaves_log_untouched [of "test_env (SpawnFails ''[Errno 2] No such file or directory'') (Child [] 0)"
      "test_world Absent (Some ''earlier'')" "OSError ''[Errno 2] No such file or directory''"]
  by (simp add: fixture_defs run_defs)

end
